theory Spec2Isabelle
  imports Main "HOL-Library.AList"
begin

section \<open>Python exceptions as values\<close>

text \<open>
  Every operation of the source that can raise is modelled with a result of type
  \<open>error + 'a\<close>; \<open>Inl\<close> carries the exception class that Python would raise.
  An exception leaves the handler that raised it, so the model returns the error alone.
\<close>

datatype error = AttributeError | AssertionError | IndexError | TypeError | KeyError

section \<open>Transport objects (the proxies handed out by the object manager)\<close>

text \<open>
  A proxy object has an object path and any subset of the four BlueZ interfaces.
  \<open>get_interface\<close> returns \<open>None\<close> for an interface the object does not carry, and
  \<open>get_cached_property\<close> returns \<open>None\<close> for a property that is not cached, so each of
  them is an \<open>option\<close>. Calling \<open>.get_string()\<close>, \<open>.get_boolean()\<close> or \<open>.unpack()\<close>
  on \<open>None\<close> raises \<open>AttributeError\<close>.
  Vendor identifiers and payload bytes are Python integers, modelled as \<open>nat\<close>;
  \<open>ManufacturerData\<close> is a dictionary in the order the variant lists its entries.
\<close>

record gatt_characteristic1 =
  chrc_Service :: "string option"
  chrc_UUID :: "string option"

record gatt_service1 =
  svc_Device :: "string option"

record device1 =
  dev_Address :: "string option"
  dev_Name :: "string option"
  dev_UUIDs :: "string list option"
  dev_ManufacturerData :: "(nat \<times> nat list) list option"
  dev_Connected :: "bool option"

record dbus_object =
  object_path :: string
  if_adapter1 :: bool
  if_device1 :: "device1 option"
  if_gatt_service1 :: "gatt_service1 option"
  if_gatt_characteristic1 :: "gatt_characteristic1 option"

text \<open>The object manager: \<open>get_objects\<close> returns the proxies it currently holds.\<close>

type_synonym object_manager = "dbus_object list"

definition get_objects :: "object_manager \<Rightarrow> dbus_object list" where
  "get_objects om = om"

section \<open>ble.py: BlueZCharacteristic\<close>

text \<open>Callbacks are Python callables; the model names them.\<close>

type_synonym callback = string

record BlueZCharacteristic =
  chrc_obj :: dbus_object
  chrc_objpath :: string
  chrc_uuid :: string
  property_callbacks :: "(string \<times> callback) list"

text \<open>\<open>BlueZCharacteristic.__init__\<close>: the interface is asserted, the UUID unpacked,
  the callback dictionary starts empty.\<close>

definition BlueZCharacteristic_init :: "dbus_object \<Rightarrow> error + BlueZCharacteristic" where
  "BlueZCharacteristic_init obj =
     (case if_gatt_characteristic1 obj of
        None \<Rightarrow> Inl AssertionError
      | Some i \<Rightarrow>
          (case chrc_UUID i of
             None \<Rightarrow> Inl AttributeError
           | Some u \<Rightarrow>
               Inr \<lparr>chrc_obj = obj, chrc_objpath = object_path obj, chrc_uuid = u,
                    property_callbacks = []\<rparr>))"

text \<open>\<open>connect_property\<close>: a dictionary store, so a second registration for the same
  property name replaces the first.\<close>

definition connect_property :: "BlueZCharacteristic \<Rightarrow> string \<Rightarrow> callback \<Rightarrow> BlueZCharacteristic" where
  "connect_property chrc propname cb =
     chrc\<lparr>property_callbacks := AList.update propname cb (property_callbacks chrc)\<rparr>"

section \<open>ble.py: BlueZDevice\<close>

type_synonym characteristic_map = "(string \<times> BlueZCharacteristic) list"

record BlueZDevice =
  bz_objpath :: string
  bz_obj :: dbus_object
  bz_interface :: device1
  bz_address :: string
  bz_name :: string
  bz_uuids :: "string list"
  bz_vendor_id :: nat
  bz_characteristics :: characteristic_map
  bz_gatt_services :: "dbus_object list"

text \<open>
  \<open>_resolve_gatt_characteristics(service_obj, objects)\<close>: the loop over all objects,
  threading \<open>self.characteristics\<close>. The dictionary is an association list in insertion
  order; a store happens only for a UUID that is not yet a key.
\<close>

fun resolve_gatt_characteristics ::
  "dbus_object \<Rightarrow> dbus_object list \<Rightarrow> characteristic_map \<Rightarrow> error + characteristic_map" where
  "resolve_gatt_characteristics service_obj [] chars = Inr chars"
| "resolve_gatt_characteristics service_obj (obj # objects) chars =
     (case if_gatt_characteristic1 obj of
        None \<Rightarrow> resolve_gatt_characteristics service_obj objects chars
      | Some i \<Rightarrow>
          (case chrc_Service i of
             None \<Rightarrow> Inl AttributeError
           | Some service \<Rightarrow>
               if service \<noteq> object_path service_obj
               then resolve_gatt_characteristics service_obj objects chars
               else
                 (case BlueZCharacteristic_init obj of
                    Inl e \<Rightarrow> Inl e
                  | Inr chrc \<Rightarrow>
                      if chrc_uuid chrc \<in> set (map fst chars)
                      then resolve_gatt_characteristics service_obj objects chars
                      else resolve_gatt_characteristics service_obj objects
                             (AList.update (chrc_uuid chrc) chrc chars))))"

text \<open>
  The loop of \<open>_resolve_gatt_services(objects)\<close>. \<open>all_objects\<close> is the full list, passed
  on to the characteristic loop for every matching service; the state is
  \<open>(self.gatt_services, self.characteristics)\<close>.
\<close>

fun resolve_gatt_services_loop ::
  "string \<Rightarrow> dbus_object list \<Rightarrow> dbus_object list \<Rightarrow> dbus_object list \<times> characteristic_map
     \<Rightarrow> error + (dbus_object list \<times> characteristic_map)" where
  "resolve_gatt_services_loop objpath all_objects [] st = Inr st"
| "resolve_gatt_services_loop objpath all_objects (obj # objects) (svcs, chars) =
     (case if_gatt_service1 obj of
        None \<Rightarrow> resolve_gatt_services_loop objpath all_objects objects (svcs, chars)
      | Some i \<Rightarrow>
          (case svc_Device i of
             None \<Rightarrow> Inl AttributeError
           | Some device \<Rightarrow>
               if device \<noteq> objpath
               then resolve_gatt_services_loop objpath all_objects objects (svcs, chars)
               else
                 (case resolve_gatt_characteristics obj all_objects chars of
                    Inl e \<Rightarrow> Inl e
                  | Inr chars' \<Rightarrow>
                      resolve_gatt_services_loop objpath all_objects objects
                        (svcs @ [obj], chars'))))"

text \<open>\<open>_resolve_gatt_services\<close> resets \<open>self.gatt_services\<close> and runs the loop.\<close>

definition resolve_gatt_services :: "BlueZDevice \<Rightarrow> dbus_object list \<Rightarrow> error + BlueZDevice" where
  "resolve_gatt_services d objects =
     (case resolve_gatt_services_loop (bz_objpath d) objects objects ([], bz_characteristics d) of
        Inl e \<Rightarrow> Inl e
      | Inr (svcs, chars) \<Rightarrow> Inr (d\<lparr>bz_gatt_services := svcs, bz_characteristics := chars\<rparr>))"

definition resolve :: "BlueZDevice \<Rightarrow> object_manager \<Rightarrow> error + BlueZDevice" where
  "resolve d om = resolve_gatt_services d (get_objects om)"

text \<open>
  \<open>BlueZDevice.__init__(om, obj)\<close>, in the order of the source: interface assertion,
  \<open>Address\<close> and \<open>Name\<close> read with \<open>get_string\<close>, the vendor identifier (0 unless
  manufacturer data is cached, otherwise its first key, \<open>IndexError\<close> on an empty
  dictionary), the assertion on \<open>UUIDs\<close>, the first resolution against the object
  manager, and the read of \<open>Connected\<close>. The signal emitted at the end of the
  constructor has no handler yet (handlers are connected by the callers, after
  construction), so it has no effect.
\<close>

definition first_key :: "(nat \<times> nat list) list \<Rightarrow> error + nat" where
  "first_key md = (case map fst md of [] \<Rightarrow> Inl IndexError | k # ks \<Rightarrow> Inr k)"

definition BlueZDevice_init :: "object_manager \<Rightarrow> dbus_object \<Rightarrow> error + BlueZDevice" where
  "BlueZDevice_init om obj =
     (case if_device1 obj of
        None \<Rightarrow> Inl AssertionError
      | Some i \<Rightarrow>
     (case dev_Address i of
        None \<Rightarrow> Inl AttributeError
      | Some address \<Rightarrow>
     (case dev_Name i of
        None \<Rightarrow> Inl AttributeError
      | Some name \<Rightarrow>
     (case (case dev_ManufacturerData i of None \<Rightarrow> Inr 0 | Some md \<Rightarrow> first_key md) of
        Inl e \<Rightarrow> Inl e
      | Inr vendor_id \<Rightarrow>
     (case dev_UUIDs i of
        None \<Rightarrow> Inl AssertionError
      | Some uuids \<Rightarrow>
     (case resolve \<lparr>bz_objpath = object_path obj, bz_obj = obj, bz_interface = i,
                     bz_address = address, bz_name = name, bz_uuids = uuids,
                     bz_vendor_id = vendor_id, bz_characteristics = [],
                     bz_gatt_services = []\<rparr> om of
        Inl e \<Rightarrow> Inl e
      | Inr d \<Rightarrow>
     (case dev_Connected i of
        None \<Rightarrow> Inl AttributeError
      | Some c \<Rightarrow> Inr d)))))))"

text \<open>What the code asks of its collaborators, recorded in call order.\<close>

datatype effect =
    StartNotify string
  | DBusConnect string
  | EmitConnected string
  | WacomStart
  | WacomStartPairing

text \<open>\<open>connect_device\<close>: an already connected device emits \<open>connected\<close> at once,
  otherwise the asynchronous \<open>Connect\<close> call is issued.\<close>

definition connect_device :: "BlueZDevice \<Rightarrow> error + effect list" where
  "connect_device d =
     (case if_device1 (bz_obj d) of
        None \<Rightarrow> Inl AttributeError
      | Some i \<Rightarrow>
          (case dev_Connected i of
             None \<Rightarrow> Inl AttributeError
           | Some c \<Rightarrow>
               if c then Inr [EmitConnected (bz_address d)]
               else Inr [DBusConnect (bz_address d)]))"

text \<open>A dictionary subscript: \<open>KeyError\<close> for a key that is not there.\<close>

definition dict_get :: "('k \<times> 'v) list \<Rightarrow> 'k \<Rightarrow> error + 'v" where
  "dict_get m k = (case map_of m k of None \<Rightarrow> Inl KeyError | Some v \<Rightarrow> Inr v)"

text \<open>
  \<open>connect_gatt_value(uuid, callback)\<close>: the body runs under
  \<open>try: ... except KeyError: pass\<close>. The characteristic is an object held by the
  dictionary, so registering the callback on it is a change of that entry.
\<close>

definition connect_gatt_value ::
  "BlueZDevice \<Rightarrow> string \<Rightarrow> callback \<Rightarrow> error + (BlueZDevice \<times> effect list)" where
  "connect_gatt_value d uuid cb =
     (case dict_get (bz_characteristics d) uuid of
        Inl e \<Rightarrow> (if e = KeyError then Inr (d, []) else Inl e)
      | Inr chrc \<Rightarrow>
          Inr (d\<lparr>bz_characteristics :=
                   AList.update uuid (connect_property chrc ''Value'' cb) (bz_characteristics d)\<rparr>,
               [StartNotify (chrc_objpath chrc)]))"

section \<open>ble.py: BlueZDeviceManager\<close>

text \<open>\<open>mgr_emitted\<close> lists the devices passed to \<open>emit("device-added", dev)\<close>, in order.\<close>

record BlueZDeviceManager =
  mgr_om :: object_manager
  mgr_devices :: "BlueZDevice list"
  mgr_emitted :: "BlueZDevice list"

definition process_device :: "BlueZDeviceManager \<Rightarrow> dbus_object \<Rightarrow> error + BlueZDeviceManager" where
  "process_device mgr obj =
     (case BlueZDevice_init (mgr_om mgr) obj of
        Inl e \<Rightarrow> Inl e
      | Inr dev \<Rightarrow>
          Inr (mgr\<lparr>mgr_devices := mgr_devices mgr @ [dev],
                   mgr_emitted := mgr_emitted mgr @ [dev]\<rparr>))"

text \<open>\<open>_process_object\<close>: the adapter branch only logs; the characteristic branch
  returns \<open>True\<close>; everything else, a service included, returns \<open>False\<close>.\<close>

definition process_object ::
  "BlueZDeviceManager \<Rightarrow> dbus_object \<Rightarrow> error + (bool \<times> BlueZDeviceManager)" where
  "process_object mgr obj =
     (if if_adapter1 obj then Inr (False, mgr)
      else if if_device1 obj \<noteq> None then
        (case process_device mgr obj of Inl e \<Rightarrow> Inl e | Inr mgr' \<Rightarrow> Inr (False, mgr'))
      else if if_gatt_characteristic1 obj \<noteq> None then Inr (True, mgr)
      else Inr (False, mgr))"

text \<open>The loop \<open>for d in self.devices: d.resolve(om)\<close>.\<close>

fun resolve_devices :: "BlueZDevice list \<Rightarrow> object_manager \<Rightarrow> error + BlueZDevice list" where
  "resolve_devices [] om = Inr []"
| "resolve_devices (d # ds) om =
     (case resolve d om of
        Inl e \<Rightarrow> Inl e
      | Inr d' \<Rightarrow>
          (case resolve_devices ds om of Inl e \<Rightarrow> Inl e | Inr ds' \<Rightarrow> Inr (d' # ds')))"

definition on_om_object_added ::
  "BlueZDeviceManager \<Rightarrow> object_manager \<Rightarrow> dbus_object \<Rightarrow> error + BlueZDeviceManager" where
  "on_om_object_added mgr om obj =
     (case process_object mgr obj of
        Inl e \<Rightarrow> Inl e
      | Inr (needs_resolve, mgr') \<Rightarrow>
          if needs_resolve then
            (case resolve_devices (mgr_devices mgr') om of
               Inl e \<Rightarrow> Inl e
             | Inr ds \<Rightarrow> Inr (mgr'\<lparr>mgr_devices := ds\<rparr>))
          else Inr mgr')"

text \<open>
  The transport side of the object-added path: the object manager client stores the
  new proxy and then emits \<open>object-added\<close> with itself as the sender, so the handler
  sees the new object among \<open>get_objects()\<close>. The order in which \<open>get_objects()\<close>
  lists the proxies is not fixed by the library; the model lists them in arrival order.
  \<open>deliver_all\<close> delivers a sequence of objects one at a time.
\<close>

definition deliver :: "BlueZDeviceManager \<Rightarrow> dbus_object \<Rightarrow> error + BlueZDeviceManager" where
  "deliver mgr obj =
     on_om_object_added (mgr\<lparr>mgr_om := mgr_om mgr @ [obj]\<rparr>) (mgr_om mgr @ [obj]) obj"

fun deliver_all :: "BlueZDeviceManager \<Rightarrow> dbus_object list \<Rightarrow> error + BlueZDeviceManager" where
  "deliver_all mgr [] = Inr mgr"
| "deliver_all mgr (obj # objs) =
     (case deliver mgr obj of Inl e \<Rightarrow> Inl e | Inr mgr' \<Rightarrow> deliver_all mgr' objs)"

definition empty_manager :: BlueZDeviceManager where
  "empty_manager = \<lparr>mgr_om = [], mgr_devices = [], mgr_emitted = []\<rparr>"

section \<open>tuhi.py: TuhiDrawing\<close>

text \<open>
  The values handed to \<open>json.dumps\<close>. A tuple is written as an array and \<open>None\<close> as
  \<open>null\<close>; a dictionary keeps its insertion order.
\<close>

datatype json =
    JNull
  | JInt int
  | JString string
  | JArray "json list"
  | JObject "(string \<times> json) list"

text \<open>
  A \<open>Point\<close> starts with no attributes, and \<open>to_dict\<close> reads each of them with
  \<open>getattr(self, key, None)\<close>: an attribute that was never set and one set to \<open>None\<close>
  are the same to it, and both are \<open>None\<close> here. \<open>position\<close> is a pair whose
  components may themselves be \<open>None\<close>.
\<close>

record Point =
  pt_toffset :: "int option"
  pt_position :: "(int option \<times> int option) option"
  pt_pressure :: "int option"

record Stroke =
  st_points :: "Point list"

record TuhiDrawing =
  dr_name :: string
  dr_dimensions :: "int \<times> int"
  dr_timestamp :: int
  dr_strokes :: "Stroke list"

definition json_of_int_option :: "int option \<Rightarrow> json" where
  "json_of_int_option v = (case v of None \<Rightarrow> JNull | Some i \<Rightarrow> JInt i)"

text \<open>\<open>Point.to_dict\<close>: the keys in the order of the source's list, each stored only
  when its value is not \<open>None\<close>.\<close>

definition Point_to_dict :: "Point \<Rightarrow> (string \<times> json) list" where
  "Point_to_dict p =
     (case pt_toffset p of None \<Rightarrow> [] | Some v \<Rightarrow> [(''toffset'', JInt v)]) @
     (case pt_position p of
        None \<Rightarrow> []
      | Some (x, y) \<Rightarrow> [(''position'', JArray [json_of_int_option x, json_of_int_option y])]) @
     (case pt_pressure p of None \<Rightarrow> [] | Some v \<Rightarrow> [(''pressure'', JInt v)])"

definition Stroke_to_dict :: "Stroke \<Rightarrow> (string \<times> json) list" where
  "Stroke_to_dict s = [(''points'', JArray (map (\<lambda>p. JObject (Point_to_dict p)) (st_points s)))]"

text \<open>\<open>TuhiDrawing.json\<close>: the dictionary \<open>json_data\<close> that is serialized.\<close>

definition JSON_FILE_FORMAT_VERSION :: int where
  "JSON_FILE_FORMAT_VERSION = 1"

definition json_data :: "TuhiDrawing \<Rightarrow> (string \<times> json) list" where
  "json_data d =
     [(''version'', JInt JSON_FILE_FORMAT_VERSION),
      (''devicename'', JString (dr_name d)),
      (''dimensions'', JArray [JInt (fst (dr_dimensions d)), JInt (snd (dr_dimensions d))]),
      (''timestamp'', JInt (dr_timestamp d)),
      (''strokes'', JArray (map (\<lambda>s. JObject (Stroke_to_dict s)) (dr_strokes d)))]"

section \<open>tuhi.py: the drawing handler\<close>

text \<open>
  The raw drawing comes from the protocol driver: a timestamp and strokes, each a
  list of tuples \<open>(type, x, y, p)\<close>. The driver's two encoding constants are a datatype.
\<close>

datatype encoding = Absolute | Relative

type_synonym raw_point = "encoding \<times> int option \<times> int option \<times> int option"

record wacom_drawing =
  wd_timestamp :: int
  wd_strokes :: "raw_point list list"

text \<open>
  One guarded block of the loop body, for one channel:
  \<^verbatim>\<open>if x is not None:
      if type == Stroke.RELATIVE: x += lastx
      lastx = x\<close>
  It returns the new \<open>(x, lastx)\<close>. Adding \<open>None\<close> to an integer raises \<open>TypeError\<close>.
\<close>

definition channel_block :: "encoding \<Rightarrow> int option \<Rightarrow> int option \<Rightarrow> error + (int option \<times> int option)" where
  "channel_block type x lastx =
     (case x of
        None \<Rightarrow> Inr (None, lastx)
      | Some v \<Rightarrow>
          if type = Relative then
            (case lastx of
               None \<Rightarrow> Inl TypeError
             | Some l \<Rightarrow> Inr (Some (v + l), Some (v + l)))
          else Inr (Some v, Some v))"

text \<open>
  The loop over \<open>s.points\<close>. After the three blocks the source assigns
  \<open>lastx, lasty, lastp = x, y, p\<close> and builds the point from \<open>lastx, lasty, lastp\<close>.
  The state is \<open>(lastx, lasty, lastp)\<close> and the points appended so far.
\<close>

fun points_loop ::
  "raw_point list \<Rightarrow> int option \<times> int option \<times> int option \<Rightarrow> Point list \<Rightarrow> error + Point list" where
  "points_loop [] lasts points = Inr points"
| "points_loop ((type, x, y, p) # rest) (lastx, lasty, lastp) points =
     (case channel_block type x lastx of
        Inl e \<Rightarrow> Inl e
      | Inr (x1, lastx1) \<Rightarrow>
     (case channel_block type y lasty of
        Inl e \<Rightarrow> Inl e
      | Inr (y1, lasty1) \<Rightarrow>
     (case channel_block type p lastp of
        Inl e \<Rightarrow> Inl e
      | Inr (p1, lastp1) \<Rightarrow>
          (let lastx2 = x1; lasty2 = y1; lastp2 = p1;
               point = \<lparr>pt_toffset = None, pt_position = Some (lastx2, lasty2),
                        pt_pressure = lastp2\<rparr>
           in points_loop rest (lastx2, lasty2, lastp2) (points @ [point])))))"

text \<open>One stroke: a fresh \<open>Stroke\<close>, the running values start as \<open>None\<close>.\<close>

definition decode_stroke :: "raw_point list \<Rightarrow> error + Stroke" where
  "decode_stroke s =
     (case points_loop s (None, None, None) [] of
        Inl e \<Rightarrow> Inl e
      | Inr points \<Rightarrow> Inr \<lparr>st_points = points\<rparr>)"

fun strokes_loop :: "raw_point list list \<Rightarrow> Stroke list \<Rightarrow> error + Stroke list" where
  "strokes_loop [] strokes = Inr strokes"
| "strokes_loop (s # rest) strokes =
     (case decode_stroke s of
        Inl e \<Rightarrow> Inl e
      | Inr stroke \<Rightarrow> strokes_loop rest (strokes @ [stroke]))"

text \<open>\<open>_on_drawing_received(device, drawing)\<close>: the result is the drawing passed to
  \<open>add_drawing\<close>; \<open>name\<close> is \<open>device.name\<close>.\<close>

definition on_drawing_received :: "string \<Rightarrow> wacom_drawing \<Rightarrow> error + TuhiDrawing" where
  "on_drawing_received name drawing =
     (case strokes_loop (wd_strokes drawing) [] of
        Inl e \<Rightarrow> Inl e
      | Inr strokes \<Rightarrow>
          Inr \<lparr>dr_name = name, dr_dimensions = (0, 0), dr_timestamp = wd_timestamp drawing,
               dr_strokes = strokes\<rparr>)"

section \<open>tuhi.py: TuhiDevice\<close>

definition WACOM_COMPANY_ID :: nat where
  "WACOM_COMPANY_ID = 0x4755"

text \<open>
  \<open>td_dbus_pairingmode\<close> is the \<open>pairingmode\<close> attribute of the exported device as this
  code last stored it. The protocol driver's \<open>working\<close> attribute belongs to the
  driver; the handlers that read it take its current value as an argument.
\<close>

record TuhiDevice =
  td_bluez_device :: BlueZDevice
  td_dbus_pairingmode :: "bool option"
  td_pairing :: bool
  td_drawings :: "TuhiDrawing list"

definition TuhiDevice_init :: "BlueZDevice \<Rightarrow> TuhiDevice" where
  "TuhiDevice_init bluez_device =
     \<lparr>td_bluez_device = bluez_device, td_dbus_pairingmode = None, td_pairing = False,
      td_drawings = []\<rparr>"

text \<open>
  The methods of a \<open>BlueZDevice\<close> that can be called with a vendor identifier and
  return a payload, by name. Class \<open>BlueZDevice\<close> (ble.py) defines \<open>__init__\<close>,
  \<open>resolve\<close>, \<open>_resolve_gatt_services\<close>, \<open>_resolve_gatt_characteristics\<close>,
  \<open>connect_device\<close>, \<open>_on_connect_result\<close>, \<open>_on_properties_changed\<close>,
  \<open>connect_gatt_value\<close>, \<open>_start_notifications\<close>, \<open>_start_gatt_notification\<close>, three
  print callbacks, \<open>start\<close> and \<open>__repr__\<close>: there is no such method, and in
  particular no \<open>get_manufacturer_data\<close>; its base class \<open>GObject.Object\<close> has none
  either. Looking up a name that is not there raises \<open>AttributeError\<close>.
\<close>

definition BlueZDevice_payload_methods :: "(string \<times> (BlueZDevice \<Rightarrow> nat \<Rightarrow> nat list)) list" where
  "BlueZDevice_payload_methods = []"

definition BlueZDevice_getattr :: "BlueZDevice \<Rightarrow> string \<Rightarrow> error + (nat \<Rightarrow> nat list)" where
  "BlueZDevice_getattr d name =
     (case map_of BlueZDevice_payload_methods name of
        None \<Rightarrow> Inl AttributeError
      | Some m \<Rightarrow> Inr (m d))"

text \<open>
  The \<open>pairingmode\<close> property: it looks \<open>get_manufacturer_data\<close> up on the BlueZ
  device and calls it with the company id, compares the length of the result with 4,
  stores the flag on the exported device and returns it.
\<close>

definition pairingmode :: "TuhiDevice \<Rightarrow> error + (bool \<times> TuhiDevice)" where
  "pairingmode td =
     (case BlueZDevice_getattr (td_bluez_device td) ''get_manufacturer_data'' of
        Inl e \<Rightarrow> Inl e
      | Inr get_manufacturer_data \<Rightarrow>
          (let manufacturer_data = get_manufacturer_data WACOM_COMPANY_ID;
               pm = (length manufacturer_data = 4)
           in Inr (pm, td\<lparr>td_dbus_pairingmode := Some pm\<rparr>)))"

text \<open>\<open>_on_bluez_device_connected\<close>; \<open>working\<close> is \<open>self._wacom_device.working\<close>.\<close>

definition on_bluez_device_connected :: "TuhiDevice \<Rightarrow> bool \<Rightarrow> TuhiDevice \<times> effect list" where
  "on_bluez_device_connected td working =
     (if \<not> working then
        (if \<not> td_pairing td then (td, [WacomStart])
         else (td\<lparr>td_pairing := False\<rparr>, [WacomStartPairing]))
      else (td, []))"

text \<open>
  \<open>retrieve_data\<close> and \<open>_on_pairing\<close> call \<open>connect_device\<close>; when that emits
  \<open>connected\<close>, the handler above runs before \<open>connect_device\<close> returns.
\<close>

definition retrieve_data :: "TuhiDevice \<Rightarrow> bool \<Rightarrow> error + (TuhiDevice \<times> effect list)" where
  "retrieve_data td working =
     (case connect_device (td_bluez_device td) of
        Inl e \<Rightarrow> Inl e
      | Inr effs \<Rightarrow>
          if EmitConnected (bz_address (td_bluez_device td)) \<in> set effs then
            (case on_bluez_device_connected td working of
               (td', effs') \<Rightarrow> Inr (td', effs @ effs'))
          else Inr (td, effs))"

definition on_pairing :: "TuhiDevice \<Rightarrow> bool \<Rightarrow> error + (TuhiDevice \<times> effect list)" where
  "on_pairing td working = retrieve_data (td\<lparr>td_pairing := True\<rparr>) working"

section \<open>tuhi.py: Tuhi\<close>

text \<open>\<open>tuhi_created\<close> lists the addresses of the devices passed to
  \<open>self.server.create_device\<close>, in call order.\<close>

record Tuhi =
  tuhi_devices :: "(string \<times> TuhiDevice) list"
  tuhi_created :: "string list"

definition empty_tuhi :: Tuhi where
  "empty_tuhi = \<lparr>tuhi_devices = [], tuhi_created = []\<rparr>"

definition get_tuhi_device :: "Tuhi \<Rightarrow> BlueZDevice \<Rightarrow> error + (TuhiDevice \<times> Tuhi)" where
  "get_tuhi_device t bluez_device =
     (let t' =
        (if bz_address bluez_device \<notin> set (map fst (tuhi_devices t)) then
           t\<lparr>tuhi_created := tuhi_created t @ [bz_address bluez_device],
             tuhi_devices :=
               AList.update (bz_address bluez_device) (TuhiDevice_init bluez_device)
                 (tuhi_devices t)\<rparr>
         else t)
      in (case dict_get (tuhi_devices t') (bz_address bluez_device) of
            Inl e \<Rightarrow> Inl e
          | Inr d \<Rightarrow> Inr (d, t')))"

text \<open>
  \<open>_on_bluez_device_updated\<close>. The session is an object held by the dictionary, so what
  \<open>pairingmode\<close> and \<open>retrieve_data\<close> change is stored back under its address.
\<close>

definition on_bluez_device_updated ::
  "Tuhi \<Rightarrow> BlueZDevice \<Rightarrow> bool \<Rightarrow> error + (Tuhi \<times> effect list)" where
  "on_bluez_device_updated t bluez_device working =
     (if bz_vendor_id bluez_device \<noteq> WACOM_COMPANY_ID then Inr (t, [])
      else
        (case get_tuhi_device t bluez_device of
           Inl e \<Rightarrow> Inl e
         | Inr (tuhi_dev, t1) \<Rightarrow>
             (case pairingmode tuhi_dev of
                Inl e \<Rightarrow> Inl e
              | Inr (pm, td1) \<Rightarrow>
                  if \<not> pm then
                    (case retrieve_data td1 working of
                       Inl e \<Rightarrow> Inl e
                     | Inr (td2, effs) \<Rightarrow>
                         Inr (t1\<lparr>tuhi_devices :=
                                  AList.update (bz_address bluez_device) td2 (tuhi_devices t1)\<rparr>,
                              effs))
                  else
                    Inr (t1\<lparr>tuhi_devices :=
                             AList.update (bz_address bluez_device) td1 (tuhi_devices t1)\<rparr>,
                         []))))"

text \<open>Successive calls of \<open>get_tuhi_device\<close>, one per incoming device.\<close>

fun get_tuhi_devices :: "Tuhi \<Rightarrow> BlueZDevice list \<Rightarrow> error + Tuhi" where
  "get_tuhi_devices t [] = Inr t"
| "get_tuhi_devices t (b # bs) =
     (case get_tuhi_device t b of
        Inl e \<Rightarrow> Inl e
      | Inr (d, t') \<Rightarrow> get_tuhi_devices t' bs)"

section \<open>Properties and sample data\<close>

text \<open>
  The three channels of a raw point, and the condition "the first point whose raw
  value for the channel is present uses the absolute encoding" (true when no point
  has a value for the channel).
\<close>

definition raw_x :: "raw_point \<Rightarrow> int option" where
  "raw_x pt = (case pt of (type, x, y, p) \<Rightarrow> x)"

definition raw_y :: "raw_point \<Rightarrow> int option" where
  "raw_y pt = (case pt of (type, x, y, p) \<Rightarrow> y)"

definition raw_p :: "raw_point \<Rightarrow> int option" where
  "raw_p pt = (case pt of (type, x, y, p) \<Rightarrow> p)"

definition first_present_absolute :: "(raw_point \<Rightarrow> int option) \<Rightarrow> raw_point list \<Rightarrow> bool" where
  "first_present_absolute chan s =
     (case find (\<lambda>pt. chan pt \<noteq> None) s of
        None \<Rightarrow> True
      | Some pt \<Rightarrow> fst pt = Absolute)"

text \<open>The keys of a dictionary.\<close>

definition keys :: "('k \<times> 'v) list \<Rightarrow> 'k list" where
  "keys m = map fst m"

text \<open>
  What resolution is expected to find in an object set: the objects that are services
  of a device (their \<open>Device\<close> property is the device's path), the objects that are
  characteristics of a service (their \<open>Service\<close> property is the service's path), and
  the UUIDs of the characteristics of the services of a device, in the order of the set.
\<close>

definition is_service_of :: "string \<Rightarrow> dbus_object \<Rightarrow> bool" where
  "is_service_of objpath s =
     (case if_gatt_service1 s of None \<Rightarrow> False | Some i \<Rightarrow> svc_Device i = Some objpath)"

definition is_chrc_of :: "dbus_object \<Rightarrow> dbus_object \<Rightarrow> bool" where
  "is_chrc_of s c =
     (case if_gatt_characteristic1 c of
        None \<Rightarrow> False
      | Some i \<Rightarrow> chrc_Service i = Some (object_path s))"

definition uuid_property :: "dbus_object \<Rightarrow> string option" where
  "uuid_property c = (case if_gatt_characteristic1 c of None \<Rightarrow> None | Some i \<Rightarrow> chrc_UUID i)"

definition chrc_uuids_of :: "dbus_object \<Rightarrow> dbus_object list \<Rightarrow> string list" where
  "chrc_uuids_of s objects = List.map_filter uuid_property (filter (is_chrc_of s) objects)"

definition expected_uuids :: "string \<Rightarrow> dbus_object list \<Rightarrow> string list" where
  "expected_uuids objpath objects =
     concat (map (\<lambda>s. chrc_uuids_of s objects) (filter (is_service_of objpath) objects))"

text \<open>
  A small topology: one device, one service on it, one characteristic in the service.
  \<open>pad_object\<close> advertises Wacom manufacturer data of six bytes, \<open>pairing_object\<close> of
  four bytes, and \<open>plain_object\<close> carries no manufacturer data.
\<close>

definition pad_interface :: device1 where
  "pad_interface =
     \<lparr>dev_Address = Some ''A1'', dev_Name = Some ''pad'', dev_UUIDs = Some [],
      dev_ManufacturerData = Some [(0x4755, [1, 2, 3, 4, 5, 6])], dev_Connected = Some False\<rparr>"

definition pad_object :: dbus_object where
  "pad_object =
     \<lparr>object_path = ''/d'', if_adapter1 = False, if_device1 = Some pad_interface,
      if_gatt_service1 = None, if_gatt_characteristic1 = None\<rparr>"

definition pairing_interface :: device1 where
  "pairing_interface =
     \<lparr>dev_Address = Some ''A2'', dev_Name = Some ''pad'', dev_UUIDs = Some [],
      dev_ManufacturerData = Some [(0x4755, [1, 2, 3, 4])], dev_Connected = Some False\<rparr>"

definition pairing_object :: dbus_object where
  "pairing_object =
     \<lparr>object_path = ''/e'', if_adapter1 = False, if_device1 = Some pairing_interface,
      if_gatt_service1 = None, if_gatt_characteristic1 = None\<rparr>"

definition plain_interface :: device1 where
  "plain_interface =
     \<lparr>dev_Address = Some ''A3'', dev_Name = Some ''other'', dev_UUIDs = Some [],
      dev_ManufacturerData = None, dev_Connected = Some False\<rparr>"

definition plain_object :: dbus_object where
  "plain_object =
     \<lparr>object_path = ''/f'', if_adapter1 = False, if_device1 = Some plain_interface,
      if_gatt_service1 = None, if_gatt_characteristic1 = None\<rparr>"

definition service_object :: dbus_object where
  "service_object =
     \<lparr>object_path = ''/d/s'', if_adapter1 = False, if_device1 = None,
      if_gatt_service1 = Some \<lparr>svc_Device = Some ''/d''\<rparr>, if_gatt_characteristic1 = None\<rparr>"

definition chrc_object :: dbus_object where
  "chrc_object =
     \<lparr>object_path = ''/d/s/c'', if_adapter1 = False, if_device1 = None,
      if_gatt_service1 = None,
      if_gatt_characteristic1 = Some \<lparr>chrc_Service = Some ''/d/s'', chrc_UUID = Some ''u1''\<rparr>\<rparr>"

text \<open>The devices and the characteristic that the constructors build from these objects.\<close>

definition pad_device :: BlueZDevice where
  "pad_device =
     \<lparr>bz_objpath = ''/d'', bz_obj = pad_object, bz_interface = pad_interface,
      bz_address = ''A1'', bz_name = ''pad'', bz_uuids = [], bz_vendor_id = 0x4755,
      bz_characteristics = [], bz_gatt_services = []\<rparr>"

definition pairing_device :: BlueZDevice where
  "pairing_device =
     \<lparr>bz_objpath = ''/e'', bz_obj = pairing_object, bz_interface = pairing_interface,
      bz_address = ''A2'', bz_name = ''pad'', bz_uuids = [], bz_vendor_id = 0x4755,
      bz_characteristics = [], bz_gatt_services = []\<rparr>"

definition plain_device :: BlueZDevice where
  "plain_device =
     \<lparr>bz_objpath = ''/f'', bz_obj = plain_object, bz_interface = plain_interface,
      bz_address = ''A3'', bz_name = ''other'', bz_uuids = [], bz_vendor_id = 0,
      bz_characteristics = [], bz_gatt_services = []\<rparr>"

definition pad_chrc :: BlueZCharacteristic where
  "pad_chrc =
     \<lparr>chrc_obj = chrc_object, chrc_objpath = ''/d/s/c'', chrc_uuid = ''u1'',
      property_callbacks = []\<rparr>"

definition pad_resolved :: BlueZDevice where
  "pad_resolved =
     pad_device\<lparr>bz_gatt_services := [service_object], bz_characteristics := [(''u1'', pad_chrc)]\<rparr>"

text \<open>
  Two more characteristics of the same service: one that repeats the UUID \<open>u1\<close> under
  another path, and one with the new UUID \<open>u2\<close>; and the device after a further
  resolution that has seen them.
\<close>

definition chrc_dup_object :: dbus_object where
  "chrc_dup_object =
     \<lparr>object_path = ''/d/s/b'', if_adapter1 = False, if_device1 = None,
      if_gatt_service1 = None,
      if_gatt_characteristic1 = Some \<lparr>chrc_Service = Some ''/d/s'', chrc_UUID = Some ''u1''\<rparr>\<rparr>"

definition chrc_object2 :: dbus_object where
  "chrc_object2 =
     \<lparr>object_path = ''/d/s/e'', if_adapter1 = False, if_device1 = None,
      if_gatt_service1 = None,
      if_gatt_characteristic1 = Some \<lparr>chrc_Service = Some ''/d/s'', chrc_UUID = Some ''u2''\<rparr>\<rparr>"

definition pad_chrc2 :: BlueZCharacteristic where
  "pad_chrc2 =
     \<lparr>chrc_obj = chrc_object2, chrc_objpath = ''/d/s/e'', chrc_uuid = ''u2'',
      property_callbacks = []\<rparr>"

definition pad_resolved2 :: BlueZDevice where
  "pad_resolved2 =
     pad_device\<lparr>bz_gatt_services := [service_object],
                bz_characteristics := [(''u1'', pad_chrc), (''u2'', pad_chrc2)]\<rparr>"

text \<open>The stroke of the decoding example.\<close>

definition example_stroke :: "raw_point list" where
  "example_stroke =
     [(Absolute, Some 10, Some 20, Some 5),
      (Relative, Some 3, Some (- 2), Some 0),
      (Relative, None, Some 5, None)]"

text \<open>The orchestrator after one device with address \<open>A1\<close> has been seen.\<close>

definition tuhi_one :: Tuhi where
  "tuhi_one = \<lparr>tuhi_devices = [(''A1'', TuhiDevice_init pad_device)], tuhi_created = [''A1'']\<rparr>"

section \<open>Auxiliary facts\<close>

lemmas obj_defs = pad_object_def pad_interface_def pairing_object_def pairing_interface_def
  plain_object_def plain_interface_def service_object_def chrc_object_def chrc_dup_object_def
  chrc_object2_def

lemmas dev_defs = pad_device_def pairing_device_def plain_device_def pad_chrc_def pad_resolved_def
  pad_chrc2_def pad_resolved2_def

lemmas ble_defs = BlueZDevice_init_def resolve_def resolve_gatt_services_def get_objects_def
  BlueZCharacteristic_init_def first_key_def

lemmas mgr_defs = deliver_def on_om_object_added_def process_object_def process_device_def
  empty_manager_def

text \<open>Storing under a key that is not in the dictionary appends the entry.\<close>

lemma update_fresh:
  "k \<notin> set (map fst al) \<Longrightarrow> AList.update k v al = al @ [(k, v)]"
  by (induction al) auto

subsection \<open>The resolver only appends, and is stable once every match is a key\<close>

lemma rgc_extends:
  "resolve_gatt_characteristics s objs m = Inr m' \<Longrightarrow>
   \<exists>new. m' = m @ new \<and> distinct (map fst new) \<and> set (map fst new) \<inter> set (map fst m) = {}"
proof (induction objs arbitrary: m)
  case Nil
  then show ?case by simp
next
  case (Cons obj objs)
  show ?case
  proof (cases "if_gatt_characteristic1 obj")
    case None
    with Cons show ?thesis by simp
  next
    case (Some i)
    show ?thesis
    proof (cases "chrc_Service i")
      case None
      with Some Cons.prems show ?thesis by simp
    next
      case svc: (Some service)
      show ?thesis
      proof (cases "service = object_path s")
        case False
        with Some svc Cons show ?thesis by simp
      next
        case True
        show ?thesis
        proof (cases "BlueZCharacteristic_init obj")
          case (Inl e)
          with Some svc True Cons.prems show ?thesis by simp
        next
          case (Inr chrc)
          show ?thesis
          proof (cases "chrc_uuid chrc \<in> set (map fst m)")
            case present: True
            with Some svc True Inr Cons show ?thesis by simp
          next
            case fresh: False
            from Some svc True Inr fresh Cons.prems
            have "resolve_gatt_characteristics s objs (m @ [(chrc_uuid chrc, chrc)]) = Inr m'"
              by (simp add: update_fresh)
            from Cons.IH [OF this] obtain new where
              n: "m' = (m @ [(chrc_uuid chrc, chrc)]) @ new" "distinct (map fst new)"
                 "set (map fst new) \<inter> set (map fst (m @ [(chrc_uuid chrc, chrc)])) = {}"
              by blast
            have "m' = m @ ((chrc_uuid chrc, chrc) # new)" using n(1) by simp
            moreover have "distinct (map fst ((chrc_uuid chrc, chrc) # new))"
              using n(2,3) by auto
            moreover have "set (map fst ((chrc_uuid chrc, chrc) # new)) \<inter> set (map fst m) = {}"
              using n(3) fresh by auto
            ultimately show ?thesis by blast
          qed
        qed
      qed
    qed
  qed
qed

lemma rgc_stable:
  "resolve_gatt_characteristics s objs m = Inr m' \<Longrightarrow>
   set (map fst m') \<subseteq> set (map fst m2) \<Longrightarrow>
   resolve_gatt_characteristics s objs m2 = Inr m2"
proof (induction objs arbitrary: m)
  case Nil
  then show ?case by simp
next
  case (Cons obj objs)
  show ?case
  proof (cases "if_gatt_characteristic1 obj")
    case None
    with Cons show ?thesis by simp
  next
    case (Some i)
    show ?thesis
    proof (cases "chrc_Service i")
      case None
      with Some Cons.prems show ?thesis by simp
    next
      case svc: (Some service)
      show ?thesis
      proof (cases "service = object_path s")
        case False
        with Some svc Cons show ?thesis by simp
      next
        case True
        show ?thesis
        proof (cases "BlueZCharacteristic_init obj")
          case (Inl e)
          with Some svc True Cons.prems show ?thesis by simp
        next
          case (Inr chrc)
          have rest: "\<exists>m1. resolve_gatt_characteristics s objs m1 = Inr m' \<and> chrc_uuid chrc \<in> set (map fst m1)"
          proof (cases "chrc_uuid chrc \<in> set (map fst m)")
            case True
            with Some svc \<open>service = object_path s\<close> Inr Cons.prems(1) show ?thesis
              by auto
          next
            case False
            with Some svc True Inr Cons.prems(1)
            have "resolve_gatt_characteristics s objs (m @ [(chrc_uuid chrc, chrc)]) = Inr m'"
              by (simp add: update_fresh)
            then show ?thesis by (intro exI [of _ "m @ [(chrc_uuid chrc, chrc)]"]) simp
          qed
          then obtain m1 where m1: "resolve_gatt_characteristics s objs m1 = Inr m'"
            "chrc_uuid chrc \<in> set (map fst m1)" by blast
          from rgc_extends [OF m1(1)] m1(2) have "chrc_uuid chrc \<in> set (map fst m')" by auto
          with Cons.prems(2) have in2: "chrc_uuid chrc \<in> set (map fst m2)" by blast
          from Cons.IH [OF m1(1) Cons.prems(2)]
          have "resolve_gatt_characteristics s objs m2 = Inr m2" .
          with Some svc True Inr in2 show ?thesis by simp
        qed
      qed
    qed
  qed
qed

lemma loop_extends:
  "resolve_gatt_services_loop p al objs (svcs, m) = Inr (svcs', m') \<Longrightarrow>
   \<exists>new. m' = m @ new \<and> distinct (map fst new) \<and> set (map fst new) \<inter> set (map fst m) = {}"
proof (induction objs arbitrary: svcs m)
  case Nil
  then show ?case by simp
next
  case (Cons obj objs)
  show ?case
  proof (cases "if_gatt_service1 obj")
    case None
    with Cons show ?thesis by simp
  next
    case (Some i)
    show ?thesis
    proof (cases "svc_Device i")
      case None
      with Some Cons.prems show ?thesis by simp
    next
      case dv: (Some device)
      show ?thesis
      proof (cases "device = p")
        case False
        with Some dv Cons show ?thesis by simp
      next
        case True
        show ?thesis
        proof (cases "resolve_gatt_characteristics obj al m")
          case (Inl e)
          with Some dv True Cons.prems show ?thesis by simp
        next
          case (Inr m1)
          with Some dv True Cons.prems
          have l: "resolve_gatt_services_loop p al objs (svcs @ [obj], m1) = Inr (svcs', m')"
            by simp
          from rgc_extends [OF Inr] obtain n1 where
            n1: "m1 = m @ n1" "distinct (map fst n1)" "set (map fst n1) \<inter> set (map fst m) = {}"
            by blast
          from Cons.IH [OF l] obtain n2 where
            n2: "m' = m1 @ n2" "distinct (map fst n2)" "set (map fst n2) \<inter> set (map fst m1) = {}"
            by blast
          have "m' = m @ (n1 @ n2)" using n1(1) n2(1) by simp
          moreover have "distinct (map fst (n1 @ n2))" using n1 n2 by auto
          moreover have "set (map fst (n1 @ n2)) \<inter> set (map fst m) = {}" using n1 n2 by auto
          ultimately show ?thesis by blast
        qed
      qed
    qed
  qed
qed

lemma loop_stable:
  "resolve_gatt_services_loop p al objs (svcs, m) = Inr (svcs', m') \<Longrightarrow>
   set (map fst m') \<subseteq> set (map fst m2) \<Longrightarrow>
   resolve_gatt_services_loop p al objs (svcs, m2) = Inr (svcs', m2)"
proof (induction objs arbitrary: svcs m)
  case Nil
  then show ?case by simp
next
  case (Cons obj objs)
  show ?case
  proof (cases "if_gatt_service1 obj")
    case None
    with Cons show ?thesis by simp
  next
    case (Some i)
    show ?thesis
    proof (cases "svc_Device i")
      case None
      with Some Cons.prems show ?thesis by simp
    next
      case dv: (Some device)
      show ?thesis
      proof (cases "device = p")
        case False
        with Some dv Cons show ?thesis by simp
      next
        case True
        show ?thesis
        proof (cases "resolve_gatt_characteristics obj al m")
          case (Inl e)
          with Some dv True Cons.prems show ?thesis by simp
        next
          case (Inr m1)
          with Some dv True Cons.prems
          have l: "resolve_gatt_services_loop p al objs (svcs @ [obj], m1) = Inr (svcs', m')"
            by simp
          from loop_extends [OF l] have "set (map fst m1) \<subseteq> set (map fst m')" by auto
          with Cons.prems(2) have "set (map fst m1) \<subseteq> set (map fst m2)" by blast
          from rgc_stable [OF Inr this]
          have r2: "resolve_gatt_characteristics obj al m2 = Inr m2" .
          from Cons.IH [OF l Cons.prems(2)]
          have "resolve_gatt_services_loop p al objs (svcs @ [obj], m2) = Inr (svcs', m2)" .
          with Some dv True r2 show ?thesis by simp
        qed
      qed
    qed
  qed
qed

lemma resolve_fixed:
  "resolve d om = Inr d1 \<Longrightarrow> resolve d1 om = Inr d1"
proof -
  assume r: "resolve d om = Inr d1"
  then obtain svcs chars where
    l: "resolve_gatt_services_loop (bz_objpath d) om om ([], bz_characteristics d) = Inr (svcs, chars)"
    and d1: "d1 = d\<lparr>bz_gatt_services := svcs, bz_characteristics := chars\<rparr>"
    by (auto simp: resolve_def resolve_gatt_services_def get_objects_def split: sum.splits)
  from loop_stable [OF l, of chars]
  have "resolve_gatt_services_loop (bz_objpath d) om om ([], chars) = Inr (svcs, chars)" by simp
  then show "resolve d1 om = Inr d1"
    by (simp add: resolve_def resolve_gatt_services_def get_objects_def d1)
qed

text \<open>What one pass finds: the services of the device, and the characteristics of
  those services.\<close>

lemma rgc_Cons_cases:
  assumes "resolve_gatt_characteristics s (obj # objs) m = Inr m'"
  shows "(\<not> is_chrc_of s obj \<and> resolve_gatt_characteristics s objs m = Inr m') \<or>
   (\<exists>u chrc. is_chrc_of s obj \<and> uuid_property obj = Some u \<and>
        BlueZCharacteristic_init obj = Inr chrc \<and> chrc_uuid chrc = u \<and>
        ((u \<in> set (map fst m) \<and> resolve_gatt_characteristics s objs m = Inr m') \<or>
         (u \<notin> set (map fst m) \<and>
          resolve_gatt_characteristics s objs (m @ [(u, chrc)]) = Inr m')))"
proof (cases "is_chrc_of s obj")
  case False
  moreover from False assms have "resolve_gatt_characteristics s objs m = Inr m'"
    by (auto simp: is_chrc_of_def split: option.splits if_splits)
  ultimately show ?thesis by blast
next
  case True
  then obtain i where i: "if_gatt_characteristic1 obj = Some i"
    "chrc_Service i = Some (object_path s)"
    by (auto simp: is_chrc_of_def split: option.splits)
  with assms obtain u where u: "chrc_UUID i = Some u"
    by (cases "chrc_UUID i") (auto simp: BlueZCharacteristic_init_def)
  let ?chrc = "\<lparr>chrc_obj = obj, chrc_objpath = object_path obj, chrc_uuid = u,
                property_callbacks = []\<rparr>"
  have init: "BlueZCharacteristic_init obj = Inr ?chrc"
    using i u by (simp add: BlueZCharacteristic_init_def)
  have up: "uuid_property obj = Some u" using i u by (simp add: uuid_property_def)
  show ?thesis
  proof (cases "u \<in> set (map fst m)")
    case present: True
    with assms i init have "resolve_gatt_characteristics s objs m = Inr m'" by simp
    with True up init present show ?thesis by auto
  next
    case fresh: False
    with assms i init have "resolve_gatt_characteristics s objs (m @ [(u, ?chrc)]) = Inr m'"
      by (simp add: update_fresh)
    with True up init fresh show ?thesis by auto
  qed
qed

lemma chrc_uuids_of_Cons:
  "chrc_uuids_of s (obj # objs) =
     (if is_chrc_of s obj then
        (case uuid_property obj of None \<Rightarrow> chrc_uuids_of s objs | Some u \<Rightarrow> u # chrc_uuids_of s objs)
      else chrc_uuids_of s objs)"
  by (simp add: chrc_uuids_of_def map_filter_simps split: option.splits)

lemma chrc_uuids_of_Nil: "chrc_uuids_of s [] = []"
  by (simp add: chrc_uuids_of_def map_filter_simps)

lemma rgc_keys:
  "resolve_gatt_characteristics s objs m = Inr m' \<Longrightarrow>
   set (map fst m') = set (map fst m) \<union> set (chrc_uuids_of s objs)"
proof (induction objs arbitrary: m)
  case Nil
  then show ?case by (simp add: chrc_uuids_of_Nil)
next
  case (Cons obj objs)
  from rgc_Cons_cases [OF Cons.prems] show ?case
  proof (elim disjE exE conjE)
    assume "\<not> is_chrc_of s obj" "resolve_gatt_characteristics s objs m = Inr m'"
    with Cons.IH show ?thesis by (simp add: chrc_uuids_of_Cons)
  next
    fix u chrc
    assume "is_chrc_of s obj" "uuid_property obj = Some u" "u \<in> set (map fst m)"
      "resolve_gatt_characteristics s objs m = Inr m'"
    with Cons.IH [of m] show ?thesis by (auto simp: chrc_uuids_of_Cons)
  next
    fix u chrc
    assume "is_chrc_of s obj" "uuid_property obj = Some u" "u \<notin> set (map fst m)"
      "resolve_gatt_characteristics s objs (m @ [(u, chrc)]) = Inr m'"
    with Cons.IH [of "m @ [(u, chrc)]"] show ?thesis by (auto simp: chrc_uuids_of_Cons)
  qed
qed

lemma rgc_entries:
  "resolve_gatt_characteristics s objs m = Inr m' \<Longrightarrow> e \<in> set m' \<Longrightarrow>
   e \<in> set m \<or>
   (\<exists>c \<in> set objs. is_chrc_of s c \<and> BlueZCharacteristic_init c = Inr (snd e) \<and>
                    chrc_uuid (snd e) = fst e)"
proof (induction objs arbitrary: m)
  case Nil
  then show ?case by simp
next
  case (Cons obj objs)
  from rgc_Cons_cases [OF Cons.prems(1)] show ?case
  proof (elim disjE exE conjE)
    assume "\<not> is_chrc_of s obj" "resolve_gatt_characteristics s objs m = Inr m'"
    from Cons.IH [OF this(2) Cons.prems(2)] show ?thesis by auto
  next
    fix u chrc
    assume "u \<in> set (map fst m)" "resolve_gatt_characteristics s objs m = Inr m'"
    from Cons.IH [OF this(2) Cons.prems(2)] show ?thesis by auto
  next
    fix u chrc
    assume a: "is_chrc_of s obj" "BlueZCharacteristic_init obj = Inr chrc" "chrc_uuid chrc = u"
      "resolve_gatt_characteristics s objs (m @ [(u, chrc)]) = Inr m'"
    from Cons.IH [OF a(4) Cons.prems(2)] a(1,2,3) show ?thesis by auto
  qed
qed

lemma loop_Cons_cases:
  "resolve_gatt_services_loop p al (obj # objs) (svcs, m) = Inr (svcs', m') \<Longrightarrow>
   (\<not> is_service_of p obj \<and> resolve_gatt_services_loop p al objs (svcs, m) = Inr (svcs', m')) \<or>
   (is_service_of p obj \<and>
    (\<exists>m1. resolve_gatt_characteristics obj al m = Inr m1 \<and>
          resolve_gatt_services_loop p al objs (svcs @ [obj], m1) = Inr (svcs', m')))"
  by (auto simp: is_service_of_def split: option.splits if_splits sum.splits)

lemma loop_services:
  "resolve_gatt_services_loop p al objs (svcs, m) = Inr (svcs', m') \<Longrightarrow>
   svcs' = svcs @ filter (is_service_of p) objs"
proof (induction objs arbitrary: svcs m)
  case Nil
  then show ?case by simp
next
  case (Cons obj objs)
  from loop_Cons_cases [OF Cons.prems] show ?case
  proof (elim disjE exE conjE)
    assume "\<not> is_service_of p obj" "resolve_gatt_services_loop p al objs (svcs, m) = Inr (svcs', m')"
    with Cons.IH show ?thesis by simp
  next
    fix m1
    assume "is_service_of p obj"
      "resolve_gatt_services_loop p al objs (svcs @ [obj], m1) = Inr (svcs', m')"
    with Cons.IH [of "svcs @ [obj]" m1] show ?thesis by simp
  qed
qed

lemma loop_keys:
  "resolve_gatt_services_loop p al objs (svcs, m) = Inr (svcs', m') \<Longrightarrow>
   set (map fst m') =
     set (map fst m) \<union>
     set (concat (map (\<lambda>s. chrc_uuids_of s al) (filter (is_service_of p) objs)))"
proof (induction objs arbitrary: svcs m)
  case Nil
  then show ?case by simp
next
  case (Cons obj objs)
  from loop_Cons_cases [OF Cons.prems] show ?case
  proof (elim disjE exE conjE)
    assume "\<not> is_service_of p obj" "resolve_gatt_services_loop p al objs (svcs, m) = Inr (svcs', m')"
    with Cons.IH show ?thesis by simp
  next
    fix m1
    assume a: "is_service_of p obj" "resolve_gatt_characteristics obj al m = Inr m1"
      "resolve_gatt_services_loop p al objs (svcs @ [obj], m1) = Inr (svcs', m')"
    from Cons.IH [OF a(3)] rgc_keys [OF a(2)] a(1) show ?thesis by auto
  qed
qed

lemma loop_entries:
  "resolve_gatt_services_loop p al objs (svcs, m) = Inr (svcs', m') \<Longrightarrow> e \<in> set m' \<Longrightarrow>
   e \<in> set m \<or>
   (\<exists>s \<in> set objs. \<exists>c \<in> set al. is_service_of p s \<and> is_chrc_of s c \<and>
        BlueZCharacteristic_init c = Inr (snd e) \<and> chrc_uuid (snd e) = fst e)"
proof (induction objs arbitrary: svcs m)
  case Nil
  then show ?case by simp
next
  case (Cons obj objs)
  from loop_Cons_cases [OF Cons.prems(1)] show ?case
  proof (elim disjE exE conjE)
    assume "\<not> is_service_of p obj" "resolve_gatt_services_loop p al objs (svcs, m) = Inr (svcs', m')"
    from Cons.IH [OF this(2) Cons.prems(2)] show ?thesis by auto
  next
    fix m1
    assume a: "is_service_of p obj" "resolve_gatt_characteristics obj al m = Inr m1"
      "resolve_gatt_services_loop p al objs (svcs @ [obj], m1) = Inr (svcs', m')"
    from Cons.IH [OF a(3) Cons.prems(2)] show ?thesis
    proof
      assume "e \<in> set m1"
      from rgc_entries [OF a(2) this] a(1) show ?thesis by auto
    next
      assume "\<exists>s \<in> set objs. \<exists>c \<in> set al. is_service_of p s \<and> is_chrc_of s c \<and>
        BlueZCharacteristic_init c = Inr (snd e) \<and> chrc_uuid (snd e) = fst e"
      then show ?thesis by auto
    qed
  qed
qed

lemma resolve_complete:
  assumes "resolve d om = Inr d2"
  shows "\<exists>new. d2 = d\<lparr>bz_gatt_services := filter (is_service_of (bz_objpath d)) om,
                      bz_characteristics := bz_characteristics d @ new\<rparr> \<and>
          distinct (keys new) \<and>
          set (keys new) = set (expected_uuids (bz_objpath d) om) - set (keys (bz_characteristics d)) \<and>
          (\<forall>e \<in> set new. \<exists>s \<in> set om. \<exists>c \<in> set om.
              is_service_of (bz_objpath d) s \<and> is_chrc_of s c \<and>
              BlueZCharacteristic_init c = Inr (snd e) \<and> chrc_uuid (snd e) = fst e)"
proof -
  from assms obtain svcs chars where
    l: "resolve_gatt_services_loop (bz_objpath d) om om ([], bz_characteristics d) = Inr (svcs, chars)"
    and d2: "d2 = d\<lparr>bz_gatt_services := svcs, bz_characteristics := chars\<rparr>"
    by (auto simp: resolve_def resolve_gatt_services_def get_objects_def split: sum.splits)
  from loop_extends [OF l] obtain new where
    n: "chars = bz_characteristics d @ new" "distinct (map fst new)"
       "set (map fst new) \<inter> set (map fst (bz_characteristics d)) = {}" by blast
  from loop_services [OF l] have s: "svcs = filter (is_service_of (bz_objpath d)) om" by simp
  from loop_keys [OF l] n(1)
  have k: "set (map fst (bz_characteristics d)) \<union> set (map fst new) =
           set (map fst (bz_characteristics d)) \<union> set (expected_uuids (bz_objpath d) om)"
    by (simp add: expected_uuids_def)
  have k': "set (keys new) = set (expected_uuids (bz_objpath d) om) - set (keys (bz_characteristics d))"
    using k n(3) unfolding keys_def by blast
  have e: "\<exists>s \<in> set om. \<exists>c \<in> set om.
              is_service_of (bz_objpath d) s \<and> is_chrc_of s c \<and>
              BlueZCharacteristic_init c = Inr (snd e) \<and> chrc_uuid (snd e) = fst e"
    if "e \<in> set new" for e
  proof -
    from that n(1) have "e \<in> set chars" by simp
    from loop_entries [OF l this] show ?thesis
    proof
      assume "e \<in> set (bz_characteristics d)"
      then have "fst e \<in> set (map fst (bz_characteristics d))" by simp
      moreover from that have "fst e \<in> set (map fst new)" by simp
      ultimately show ?thesis using n(3) by blast
    qed
  qed
  from d2 s n(1,2) k' e show ?thesis by (auto simp: keys_def)
qed

lemma resolve_devices_fixed:
  "resolve_devices ds om = Inr ds' \<Longrightarrow> \<forall>d \<in> set ds'. resolve d om = Inr d"
proof (induction ds arbitrary: ds')
  case Nil
  then show ?case by simp
next
  case (Cons d ds)
  from Cons.prems obtain d1 ds1 where
    r: "resolve d om = Inr d1" and rs: "resolve_devices ds om = Inr ds1" and e: "ds' = d1 # ds1"
    by (auto split: sum.splits)
  from resolve_fixed [OF r] Cons.IH [OF rs] e show ?case by simp
qed

lemma characteristic_arrival_resolves:
  "deliver mgr c = Inr mgr' \<Longrightarrow> \<not> if_adapter1 c \<Longrightarrow> if_device1 c = None \<Longrightarrow>
   if_gatt_characteristic1 c \<noteq> None \<Longrightarrow>
   mgr_om mgr' = mgr_om mgr @ [c] \<and> (\<forall>d \<in> set (mgr_devices mgr'). resolve d (mgr_om mgr') = Inr d)"
proof -
  assume a: "deliver mgr c = Inr mgr'" "\<not> if_adapter1 c" "if_device1 c = None"
    "if_gatt_characteristic1 c \<noteq> None"
  then obtain ds where
    r: "resolve_devices (mgr_devices mgr) (mgr_om mgr @ [c]) = Inr ds" and
    m: "mgr' = mgr\<lparr>mgr_om := mgr_om mgr @ [c], mgr_devices := ds\<rparr>"
    by (auto simp: deliver_def on_om_object_added_def process_object_def split: sum.splits)
  from resolve_devices_fixed [OF r] m show ?thesis by simp
qed

lemma service_arrival_no_pass:
  "\<not> if_adapter1 s \<Longrightarrow> if_device1 s = None \<Longrightarrow> if_gatt_characteristic1 s = None \<Longrightarrow>
   deliver mgr s = Inr (mgr\<lparr>mgr_om := mgr_om mgr @ [s]\<rparr>)"
  by (simp add: deliver_def on_om_object_added_def process_object_def)

text \<open>The four other arrival orders of the sample topology.\<close>

lemma arrival_orders_other:
  "map_sum id mgr_devices (deliver_all empty_manager [pad_object, service_object, chrc_object]) = Inr [pad_resolved] \<and>
   map_sum id mgr_devices (deliver_all empty_manager [service_object, pad_object, chrc_object]) = Inr [pad_resolved] \<and>
   map_sum id mgr_devices (deliver_all empty_manager [chrc_object, service_object, pad_object]) = Inr [pad_resolved] \<and>
   map_sum id mgr_devices (deliver_all empty_manager [chrc_object, pad_object, service_object]) = Inr [pad_device]"
  by (simp add: mgr_defs ble_defs obj_defs dev_defs)

subsection \<open>The decoding loop\<close>

lemma channel_block_Some_ok:
  "channel_block t (Some v) None = Inr r \<Longrightarrow> t = Absolute"
  by (cases t) (simp_all add: channel_block_def)

lemma channel_block_out:
  "channel_block t x l = Inr (x1, l1) \<Longrightarrow> (x1 = None) = (x = None)"
  by (auto simp: channel_block_def split: option.splits if_splits)

lemma points_loop_first_present:
  "points_loop s (lx, ly, lp) acc = Inr r \<Longrightarrow>
     (lx = None \<longrightarrow> first_present_absolute raw_x s) \<and>
     (ly = None \<longrightarrow> first_present_absolute raw_y s) \<and>
     (lp = None \<longrightarrow> first_present_absolute raw_p s)"
proof (induction s arbitrary: lx ly lp acc)
  case Nil
  then show ?case by (simp add: first_present_absolute_def)
next
  case (Cons pt s)
  obtain t x y p where pt: "pt = (t, x, y, p)" by (cases pt) auto
  from Cons.prems pt obtain x1 l1 y1 l2 p1 l3 where
    bx: "channel_block t x lx = Inr (x1, l1)" and
    by': "channel_block t y ly = Inr (y1, l2)" and
    bp: "channel_block t p lp = Inr (p1, l3)" and
    rest: "points_loop s (x1, y1, p1)
            (acc @ [\<lparr>pt_toffset = None, pt_position = Some (x1, y1), pt_pressure = p1\<rparr>]) = Inr r"
    by (auto simp: Let_def split: sum.splits prod.splits)
  note ih = Cons.IH [OF rest]
  have "first_present_absolute raw_x (pt # s)" if "lx = None"
  proof (cases x)
    case None
    with bx have "x1 = None" using channel_block_out by blast
    with ih None pt show ?thesis by (simp add: first_present_absolute_def raw_x_def)
  next
    case (Some v)
    with bx that have "t = Absolute" using channel_block_Some_ok by blast
    with Some pt show ?thesis by (simp add: first_present_absolute_def raw_x_def)
  qed
  moreover have "first_present_absolute raw_y (pt # s)" if "ly = None"
  proof (cases y)
    case None
    with by' have "y1 = None" using channel_block_out by blast
    with ih None pt show ?thesis by (simp add: first_present_absolute_def raw_y_def)
  next
    case (Some v)
    with by' that have "t = Absolute" using channel_block_Some_ok by blast
    with Some pt show ?thesis by (simp add: first_present_absolute_def raw_y_def)
  qed
  moreover have "first_present_absolute raw_p (pt # s)" if "lp = None"
  proof (cases p)
    case None
    with bp have "p1 = None" using channel_block_out by blast
    with ih None pt show ?thesis by (simp add: first_present_absolute_def raw_p_def)
  next
    case (Some v)
    with bp that have "t = Absolute" using channel_block_Some_ok by blast
    with Some pt show ?thesis by (simp add: first_present_absolute_def raw_p_def)
  qed
  ultimately show ?case by blast
qed

lemma strokes_loop_each:
  "strokes_loop ss acc = Inr r \<Longrightarrow> s \<in> set ss \<Longrightarrow> \<exists>st. decode_stroke s = Inr st"
proof (induction ss arbitrary: acc)
  case Nil
  then show ?case by simp
next
  case (Cons a ss)
  from Cons.prems(1) obtain st where
    d: "decode_stroke a = Inr st" and rest: "strokes_loop ss (acc @ [st]) = Inr r"
    by (auto split: sum.splits)
  show ?case
  proof (cases "s = a")
    case True
    with d show ?thesis by blast
  next
    case False
    with Cons.prems(2) have "s \<in> set ss" by simp
    from Cons.IH [OF rest this] show ?thesis .
  qed
qed

lemma decode_stroke_first_present:
  "decode_stroke s = Inr st \<Longrightarrow>
   first_present_absolute raw_x s \<and> first_present_absolute raw_y s \<and> first_present_absolute raw_p s"
proof -
  assume "decode_stroke s = Inr st"
  then obtain r where "points_loop s (None, None, None) [] = Inr r"
    by (auto simp: decode_stroke_def split: sum.splits)
  from points_loop_first_present [OF this] show ?thesis by simp
qed

subsection \<open>Looking up and creating sessions\<close>

lemma get_tuhi_device_known:
  "bz_address b \<in> set (keys (tuhi_devices t)) \<Longrightarrow>
   \<exists>d. map_of (tuhi_devices t) (bz_address b) = Some d \<and> get_tuhi_device t b = Inr (d, t)"
proof -
  assume a: "bz_address b \<in> set (keys (tuhi_devices t))"
  then have "map_of (tuhi_devices t) (bz_address b) \<noteq> None"
    by (simp add: keys_def map_of_eq_None_iff)
  then obtain d where "map_of (tuhi_devices t) (bz_address b) = Some d" by blast
  with a show ?thesis by (simp add: get_tuhi_device_def dict_get_def keys_def)
qed

lemma get_tuhi_device_new:
  "bz_address b \<notin> set (keys (tuhi_devices t)) \<Longrightarrow>
   get_tuhi_device t b =
     Inr (TuhiDevice_init b,
          t\<lparr>tuhi_created := tuhi_created t @ [bz_address b],
            tuhi_devices := tuhi_devices t @ [(bz_address b, TuhiDevice_init b)]\<rparr>)"
proof -
  assume a: "bz_address b \<notin> set (keys (tuhi_devices t))"
  then have "map_of (tuhi_devices t) (bz_address b) = None"
    by (simp add: keys_def map_of_eq_None_iff)
  with a show ?thesis
    by (simp add: get_tuhi_device_def dict_get_def keys_def update_fresh Let_def map_add_def)
qed

lemma get_tuhi_devices_invariant:
  "tuhi_created t = keys (tuhi_devices t) \<Longrightarrow> distinct (keys (tuhi_devices t)) \<Longrightarrow>
   \<exists>t'. get_tuhi_devices t bs = Inr t' \<and>
        tuhi_created t' = keys (tuhi_devices t') \<and>
        distinct (keys (tuhi_devices t')) \<and>
        set (keys (tuhi_devices t')) = set (keys (tuhi_devices t)) \<union> bz_address ` set bs"
proof (induction bs arbitrary: t)
  case Nil
  then show ?case by simp
next
  case (Cons b bs)
  show ?case
  proof (cases "bz_address b \<in> set (keys (tuhi_devices t))")
    case True
    from get_tuhi_device_known [OF True] obtain d where
      g: "get_tuhi_device t b = Inr (d, t)" by blast
    from Cons.IH [OF Cons.prems] obtain t' where
      "get_tuhi_devices t bs = Inr t'" "tuhi_created t' = keys (tuhi_devices t')"
      "distinct (keys (tuhi_devices t'))"
      "set (keys (tuhi_devices t')) = set (keys (tuhi_devices t)) \<union> bz_address ` set bs"
      by blast
    with g True show ?thesis by auto
  next
    case False
    let ?t1 = "t\<lparr>tuhi_created := tuhi_created t @ [bz_address b],
                 tuhi_devices := tuhi_devices t @ [(bz_address b, TuhiDevice_init b)]\<rparr>"
    from get_tuhi_device_new [OF False] have
      g: "get_tuhi_device t b = Inr (TuhiDevice_init b, ?t1)" .
    have c: "tuhi_created ?t1 = keys (tuhi_devices ?t1)"
      using Cons.prems(1) by (simp add: keys_def)
    have d: "distinct (keys (tuhi_devices ?t1))"
      using Cons.prems(2) False by (simp add: keys_def)
    from Cons.IH [OF c d] obtain t' where
      "get_tuhi_devices ?t1 bs = Inr t'" "tuhi_created t' = keys (tuhi_devices t')"
      "distinct (keys (tuhi_devices t'))"
      "set (keys (tuhi_devices t')) = set (keys (tuhi_devices ?t1)) \<union> bz_address ` set bs"
      by blast
    with g show ?thesis by (auto simp: keys_def)
  qed
qed

section \<open>The claims\<close>

text \<open>
  C1 (delta decode). On the stroke
  \<open>[(Absolute,10,20,5), (Relative,3,-2,0), (Relative,None,5,None)]\<close> the handler produces
  \<open>(10,20,5)\<close>, \<open>(13,18,5)\<close> and then a point whose x and pressure are \<open>None\<close> and whose
  y is 23: the assignment \<open>lastx, lasty, lastp = x, y, p\<close> after the three guarded
  blocks overwrites the running values that the blocks had kept. The running value is
  lost as well: one more relative point with all three channels present raises
  \<open>TypeError\<close>.
\<close>

theorem delta_decode_example:
  "on_drawing_received ''pad'' \<lparr>wd_timestamp = 0, wd_strokes = [example_stroke]\<rparr> =
     Inr \<lparr>dr_name = ''pad'', dr_dimensions = (0, 0), dr_timestamp = 0,
          dr_strokes = [\<lparr>st_points =
            [\<lparr>pt_toffset = None, pt_position = Some (Some 10, Some 20), pt_pressure = Some 5\<rparr>,
             \<lparr>pt_toffset = None, pt_position = Some (Some 13, Some 18), pt_pressure = Some 5\<rparr>,
             \<lparr>pt_toffset = None, pt_position = Some (None, Some 23), pt_pressure = None\<rparr>]\<rparr>]\<rparr> \<and>
   on_drawing_received ''pad''
      \<lparr>wd_timestamp = 0, wd_strokes = [example_stroke @ [(Relative, Some 1, Some 1, Some 1)]]\<rparr> =
     Inl TypeError"
  by (simp add: example_stroke_def on_drawing_received_def decode_stroke_def channel_block_def)

text \<open>
  C2 (idempotent resolution). If resolving a device against an object set succeeds,
  resolving the result against the same set succeeds and returns it unchanged
  (characteristic map and service list alike). Resolving against any object set, new
  objects included, changes the device in two fields only. The service list becomes the
  services of the device in the set. The characteristic map keeps its entries, in place
  and with their values, and is extended by exactly the missing ones: the new keys are
  pairwise different, none of them was a key before, together they are all the UUIDs
  of the characteristics of the device's services in the set that were not keys before,
  and each new entry holds the characteristic built from such an object.
\<close>

theorem resolve_idempotent:
  "(resolve d om = Inr d1 \<longrightarrow> resolve d1 om = Inr d1) \<and>
   (resolve d om' = Inr d2 \<longrightarrow>
      (\<exists>new. d2 = d\<lparr>bz_gatt_services := filter (is_service_of (bz_objpath d)) om',
                     bz_characteristics := bz_characteristics d @ new\<rparr> \<and>
             distinct (keys new) \<and>
             set (keys new) \<inter> set (keys (bz_characteristics d)) = {} \<and>
             set (keys new) =
               set (expected_uuids (bz_objpath d) om') - set (keys (bz_characteristics d)) \<and>
             (\<forall>e \<in> set new. \<exists>s \<in> set om'. \<exists>c \<in> set om'.
                 is_service_of (bz_objpath d) s \<and> is_chrc_of s c \<and>
                 BlueZCharacteristic_init c = Inr (snd e) \<and> chrc_uuid (snd e) = fst e)))"
proof (intro conjI impI)
  assume "resolve d om = Inr d1"
  then show "resolve d1 om = Inr d1" by (rule resolve_fixed)
next
  assume "resolve d om' = Inr d2"
  from resolve_complete [OF this] obtain new where
    n: "d2 = d\<lparr>bz_gatt_services := filter (is_service_of (bz_objpath d)) om',
                bz_characteristics := bz_characteristics d @ new\<rparr>"
       "distinct (keys new)"
       "set (keys new) = set (expected_uuids (bz_objpath d) om') - set (keys (bz_characteristics d))"
       "\<forall>e \<in> set new. \<exists>s \<in> set om'. \<exists>c \<in> set om'.
           is_service_of (bz_objpath d) s \<and> is_chrc_of s c \<and>
           BlueZCharacteristic_init c = Inr (snd e) \<and> chrc_uuid (snd e) = fst e"
    by blast
  from n(3) have "set (keys new) \<inter> set (keys (bz_characteristics d)) = {}" by blast
  with n show "\<exists>new. d2 = d\<lparr>bz_gatt_services := filter (is_service_of (bz_objpath d)) om',
                     bz_characteristics := bz_characteristics d @ new\<rparr> \<and>
             distinct (keys new) \<and>
             set (keys new) \<inter> set (keys (bz_characteristics d)) = {} \<and>
             set (keys new) =
               set (expected_uuids (bz_objpath d) om') - set (keys (bz_characteristics d)) \<and>
             (\<forall>e \<in> set new. \<exists>s \<in> set om'. \<exists>c \<in> set om'.
                 is_service_of (bz_objpath d) s \<and> is_chrc_of s c \<and>
                 BlueZCharacteristic_init c = Inr (snd e) \<and> chrc_uuid (snd e) = fst e)"
    by blast
qed

text \<open>
  The device that already holds \<open>u1\<close>, resolved again after two more characteristics of
  its service have arrived, one repeating \<open>u1\<close> and one with \<open>u2\<close>: the entry for \<open>u1\<close>
  stays as it was and \<open>u2\<close> is added.
\<close>

theorem resolve_idempotent_witness:
  "resolve pad_resolved [service_object, chrc_object] = Inr pad_resolved \<and>
   resolve pad_resolved [service_object, chrc_object, chrc_dup_object, chrc_object2] =
     Inr pad_resolved2 \<and>
   bz_characteristics pad_resolved = [(''u1'', pad_chrc)] \<and>
   bz_characteristics pad_resolved2 = [(''u1'', pad_chrc), (''u2'', pad_chrc2)] \<and>
   expected_uuids (bz_objpath pad_resolved)
     [service_object, chrc_object, chrc_dup_object, chrc_object2] = [''u1'', ''u1'', ''u2''] \<and>
   (\<exists>new. pad_resolved2 =
            pad_resolved\<lparr>bz_gatt_services :=
                           filter (is_service_of (bz_objpath pad_resolved))
                             [service_object, chrc_object, chrc_dup_object, chrc_object2],
                         bz_characteristics := bz_characteristics pad_resolved @ new\<rparr> \<and>
          distinct (keys new) \<and>
          set (keys new) \<inter> set (keys (bz_characteristics pad_resolved)) = {} \<and>
          set (keys new) =
            set (expected_uuids (bz_objpath pad_resolved)
                   [service_object, chrc_object, chrc_dup_object, chrc_object2]) -
            set (keys (bz_characteristics pad_resolved)))"
proof -
  have r1: "resolve pad_resolved [service_object, chrc_object] = Inr pad_resolved"
    by (simp add: ble_defs obj_defs dev_defs)
  have r2: "resolve pad_resolved [service_object, chrc_object, chrc_dup_object, chrc_object2] =
     Inr pad_resolved2"
    by (simp add: ble_defs obj_defs dev_defs)
  have c: "bz_characteristics pad_resolved = [(''u1'', pad_chrc)]"
    "bz_characteristics pad_resolved2 = [(''u1'', pad_chrc), (''u2'', pad_chrc2)]"
    by (simp_all add: pad_resolved_def pad_resolved2_def)
  have e: "expected_uuids (bz_objpath pad_resolved)
     [service_object, chrc_object, chrc_dup_object, chrc_object2] = [''u1'', ''u1'', ''u2'']"
    by (simp add: expected_uuids_def chrc_uuids_of_def is_service_of_def is_chrc_of_def
        uuid_property_def map_filter_simps obj_defs dev_defs)
  from resolve_idempotent [of pad_resolved "[service_object, chrc_object]" pad_resolved
      "[service_object, chrc_object, chrc_dup_object, chrc_object2]" pad_resolved2] r1 r2 c e
  show ?thesis by blast
qed

text \<open>
  C3 (order independence). Delivered as service, characteristic, device, the three
  objects of the sample topology end with the characteristic in the device's map.
  Delivered as device, characteristic, service, they end with an empty map: the
  characteristic triggers a resolution pass while its service is still unknown, and the
  service, arriving last, triggers none (\<open>service_arrival_no_pass\<close>), whereas the
  arrival of a characteristic leaves every known device resolved against all objects
  delivered so far (\<open>characteristic_arrival_resolves\<close>).
\<close>

theorem arrival_order_example:
  "deliver_all empty_manager [service_object, chrc_object, pad_object] =
     Inr \<lparr>mgr_om = [service_object, chrc_object, pad_object], mgr_devices = [pad_resolved],
          mgr_emitted = [pad_resolved]\<rparr> \<and>
   deliver_all empty_manager [pad_object, chrc_object, service_object] =
     Inr \<lparr>mgr_om = [pad_object, chrc_object, service_object], mgr_devices = [pad_device],
          mgr_emitted = [pad_device]\<rparr> \<and>
   bz_characteristics pad_resolved = [(''u1'', pad_chrc)] \<and>
   bz_characteristics pad_device = []"
  by (simp add: mgr_defs ble_defs obj_defs dev_defs)

text \<open>
  C4 (pairing-mode detection). The pairing-mode query returns no flag at all: for
  every device it raises \<open>AttributeError\<close>, because it calls
  \<open>get_manufacturer_data\<close> on the BlueZ device and class \<open>BlueZDevice\<close> defines no
  such method. So it does for the device that advertises a four-byte Wacom payload,
  and the update handler, which asks for the pairing mode of every Wacom device, raises
  with it.
\<close>

theorem pairingmode_raises:
  "pairingmode td = Inl AttributeError \<and>
   pairingmode (TuhiDevice_init pairing_device) = Inl AttributeError \<and>
   on_bluez_device_updated empty_tuhi pairing_device False = Inl AttributeError"
  by (simp add: pairingmode_def BlueZDevice_getattr_def BlueZDevice_payload_methods_def
      on_bluez_device_updated_def get_tuhi_device_def dict_get_def Let_def empty_tuhi_def
      WACOM_COMPANY_ID_def pairing_device_def)

text \<open>
  C5 (deduplication by hardware address). \<open>get_tuhi_device\<close> returns the stored session
  and leaves the orchestrator unchanged when the address is known; otherwise it asks the
  server for one exported device and stores one new session. After any sequence of
  calls that starts with no sessions, the addresses with a session are those seen, each
  once, and the server was asked for exactly one exported device per session. In the
  device manager, every processed device object appends one device and emits
  \<open>device-added\<close> once, for that device.
\<close>

theorem device_deduplication:
  "(bz_address b \<in> set (keys (tuhi_devices t)) \<longrightarrow>
      (\<exists>d. map_of (tuhi_devices t) (bz_address b) = Some d \<and> get_tuhi_device t b = Inr (d, t))) \<and>
   (bz_address b' \<notin> set (keys (tuhi_devices t')) \<longrightarrow>
      get_tuhi_device t' b' =
        Inr (TuhiDevice_init b',
             t'\<lparr>tuhi_created := tuhi_created t' @ [bz_address b'],
                tuhi_devices := tuhi_devices t' @ [(bz_address b', TuhiDevice_init b')]\<rparr>)) \<and>
   (\<exists>u. get_tuhi_devices empty_tuhi bs = Inr u \<and>
        distinct (keys (tuhi_devices u)) \<and>
        set (keys (tuhi_devices u)) = bz_address ` set bs \<and>
        tuhi_created u = keys (tuhi_devices u)) \<and>
   (process_device mgr obj = Inr mgr' \<longrightarrow>
      (\<exists>dev. BlueZDevice_init (mgr_om mgr) obj = Inr dev \<and>
             mgr_devices mgr' = mgr_devices mgr @ [dev] \<and>
             mgr_emitted mgr' = mgr_emitted mgr @ [dev]))"
proof (intro conjI impI)
  assume "bz_address b \<in> set (keys (tuhi_devices t))"
  then show "\<exists>d. map_of (tuhi_devices t) (bz_address b) = Some d \<and> get_tuhi_device t b = Inr (d, t)"
    by (rule get_tuhi_device_known)
next
  assume "bz_address b' \<notin> set (keys (tuhi_devices t'))"
  then show "get_tuhi_device t' b' =
        Inr (TuhiDevice_init b',
             t'\<lparr>tuhi_created := tuhi_created t' @ [bz_address b'],
                tuhi_devices := tuhi_devices t' @ [(bz_address b', TuhiDevice_init b')]\<rparr>)"
    by (rule get_tuhi_device_new)
next
  have "tuhi_created empty_tuhi = keys (tuhi_devices empty_tuhi)"
    "distinct (keys (tuhi_devices empty_tuhi))"
    by (simp_all add: empty_tuhi_def keys_def)
  from get_tuhi_devices_invariant [OF this, of bs]
  show "\<exists>u. get_tuhi_devices empty_tuhi bs = Inr u \<and>
        distinct (keys (tuhi_devices u)) \<and>
        set (keys (tuhi_devices u)) = bz_address ` set bs \<and>
        tuhi_created u = keys (tuhi_devices u)"
    by (auto simp: empty_tuhi_def keys_def)
next
  assume "process_device mgr obj = Inr mgr'"
  then show "\<exists>dev. BlueZDevice_init (mgr_om mgr) obj = Inr dev \<and>
             mgr_devices mgr' = mgr_devices mgr @ [dev] \<and>
             mgr_emitted mgr' = mgr_emitted mgr @ [dev]"
    by (auto simp: process_device_def split: sum.splits)
qed

theorem device_deduplication_witness:
  "bz_address pad_device \<in> set (keys (tuhi_devices tuhi_one)) \<and>
   get_tuhi_device tuhi_one pad_device = Inr (TuhiDevice_init pad_device, tuhi_one) \<and>
   bz_address pad_device \<notin> set (keys (tuhi_devices empty_tuhi)) \<and>
   get_tuhi_device empty_tuhi pad_device = Inr (TuhiDevice_init pad_device, tuhi_one) \<and>
   get_tuhi_devices empty_tuhi [pad_device, pad_device] = Inr tuhi_one \<and>
   process_device empty_manager pad_object =
     Inr \<lparr>mgr_om = [], mgr_devices = [pad_device], mgr_emitted = [pad_device]\<rparr> \<and>
   BlueZDevice_init (mgr_om empty_manager) pad_object = Inr pad_device"
  using device_deduplication [of pad_device tuhi_one pad_device empty_tuhi "[pad_device, pad_device]"
      empty_manager pad_object "\<lparr>mgr_om = [], mgr_devices = [pad_device], mgr_emitted = [pad_device]\<rparr>"]
  by (simp add: tuhi_one_def empty_tuhi_def keys_def get_tuhi_device_def dict_get_def Let_def
      mgr_defs ble_defs obj_defs pad_device_def)

text \<open>
  C6 (connected-entry decision). When the driver is not working, the handler makes
  exactly one driver call: pairing, with the flag cleared, if the pairing flag is set,
  and data retrieval otherwise. When the driver is working it makes no call and changes
  nothing.
\<close>

theorem connected_entry_decision:
  "(\<not> working \<and> td_pairing td \<longrightarrow>
      on_bluez_device_connected td working = (td\<lparr>td_pairing := False\<rparr>, [WacomStartPairing])) \<and>
   (\<not> working' \<and> \<not> td_pairing td' \<longrightarrow>
      on_bluez_device_connected td' working' = (td', [WacomStart])) \<and>
   (working'' \<longrightarrow> on_bluez_device_connected td'' working'' = (td'', []))"
  by (simp add: on_bluez_device_connected_def)

theorem connected_entry_decision_witness:
  "on_bluez_device_connected ((TuhiDevice_init pad_device)\<lparr>td_pairing := True\<rparr>) False =
     (TuhiDevice_init pad_device, [WacomStartPairing]) \<and>
   on_bluez_device_connected (TuhiDevice_init pad_device) False =
     (TuhiDevice_init pad_device, [WacomStart]) \<and>
   on_bluez_device_connected ((TuhiDevice_init pad_device)\<lparr>td_pairing := True\<rparr>) True =
     ((TuhiDevice_init pad_device)\<lparr>td_pairing := True\<rparr>, [])"
  using connected_entry_decision [of False "(TuhiDevice_init pad_device)\<lparr>td_pairing := True\<rparr>"
      False "TuhiDevice_init pad_device" True "(TuhiDevice_init pad_device)\<lparr>td_pairing := True\<rparr>"]
  by (simp add: TuhiDevice_init_def)

text \<open>
  C7 (published record). A drawing with one stroke of one raw point that has a
  pressure but neither x nor y is published with a point record that has a position
  field, both of whose components are null; with no channel present at all, the
  pressure field is omitted and the position field is still there. \<open>to_dict\<close> leaves
  out an attribute that is \<open>None\<close>, but the handler sets the position attribute to the
  pair \<open>(lastx, lasty)\<close>, which is never \<open>None\<close>.
\<close>

theorem position_field_published_null:
  "map_sum id json_data
     (on_drawing_received ''pad'' \<lparr>wd_timestamp = 0, wd_strokes = [[(Absolute, None, None, Some 5)]]\<rparr>) =
   Inr [(''version'', JInt 1), (''devicename'', JString ''pad''),
        (''dimensions'', JArray [JInt 0, JInt 0]), (''timestamp'', JInt 0),
        (''strokes'',
         JArray [JObject [(''points'',
           JArray [JObject [(''position'', JArray [JNull, JNull]), (''pressure'', JInt 5)]])]])] \<and>
   map_sum id json_data
     (on_drawing_received ''pad'' \<lparr>wd_timestamp = 0, wd_strokes = [[(Absolute, None, None, None)]]\<rparr>) =
   Inr [(''version'', JInt 1), (''devicename'', JString ''pad''),
        (''dimensions'', JArray [JInt 0, JInt 0]), (''timestamp'', JInt 0),
        (''strokes'',
         JArray [JObject [(''points'',
           JArray [JObject [(''position'', JArray [JNull, JNull])]])]])]"
  by (simp add: on_drawing_received_def decode_stroke_def channel_block_def json_data_def
      Stroke_to_dict_def Point_to_dict_def json_of_int_option_def JSON_FILE_FORMAT_VERSION_def)

text \<open>What does hold of the record: the five fields of a drawing, and, in
  \<open>to_dict\<close>, a field for exactly the attributes that are not \<open>None\<close>.\<close>

lemma serialized_fields:
  "keys (json_data d) = [''version'', ''devicename'', ''dimensions'', ''timestamp'', ''strokes''] \<and>
   (''toffset'' \<in> set (keys (Point_to_dict p))) = (pt_toffset p \<noteq> None) \<and>
   (''position'' \<in> set (keys (Point_to_dict p))) = (pt_position p \<noteq> None) \<and>
   (''pressure'' \<in> set (keys (Point_to_dict p))) = (pt_pressure p \<noteq> None)"
  by (cases "pt_toffset p"; cases "pt_position p"; cases "pt_pressure p")
     (simp_all add: keys_def json_data_def Point_to_dict_def split_beta)

text \<open>
  C8 (decoder precondition). If the drawing handler returns, then in every stroke of
  the drawing, on each channel, the first point that has a value uses the absolute
  encoding. A stroke whose first value on the x channel is relative makes the handler
  raise \<open>TypeError\<close>.
\<close>

theorem decoder_precondition:
  "(on_drawing_received name drawing = Inr d \<and> s \<in> set (wd_strokes drawing) \<longrightarrow>
      first_present_absolute raw_x s \<and> first_present_absolute raw_y s \<and>
      first_present_absolute raw_p s) \<and>
   \<not> first_present_absolute raw_x [(Relative, Some 3, None, None)] \<and>
   on_drawing_received ''pad'' \<lparr>wd_timestamp = 0, wd_strokes = [[(Relative, Some 3, None, None)]]\<rparr> =
     Inl TypeError"
proof (intro conjI impI)
  assume a: "on_drawing_received name drawing = Inr d \<and> s \<in> set (wd_strokes drawing)"
  then obtain r where "strokes_loop (wd_strokes drawing) [] = Inr r"
    by (auto simp: on_drawing_received_def split: sum.splits)
  from strokes_loop_each [OF this] a obtain st where "decode_stroke s = Inr st" by blast
  from decode_stroke_first_present [OF this]
  show "first_present_absolute raw_x s" "first_present_absolute raw_y s"
    "first_present_absolute raw_p s" by simp_all
next
  show "\<not> first_present_absolute raw_x [(Relative, Some 3, None, None)]"
    by (simp add: first_present_absolute_def raw_x_def)
  show "on_drawing_received ''pad'' \<lparr>wd_timestamp = 0, wd_strokes = [[(Relative, Some 3, None, None)]]\<rparr> =
     Inl TypeError"
    by (simp add: on_drawing_received_def decode_stroke_def channel_block_def)
qed

theorem decoder_precondition_witness:
  "on_drawing_received ''pad''
      \<lparr>wd_timestamp = 0,
       wd_strokes = [[(Absolute, Some 10, Some 20, Some 5), (Relative, Some 3, Some (- 2), Some 0)]]\<rparr> =
     Inr \<lparr>dr_name = ''pad'', dr_dimensions = (0, 0), dr_timestamp = 0,
          dr_strokes = [\<lparr>st_points =
            [\<lparr>pt_toffset = None, pt_position = Some (Some 10, Some 20), pt_pressure = Some 5\<rparr>,
             \<lparr>pt_toffset = None, pt_position = Some (Some 13, Some 18), pt_pressure = Some 5\<rparr>]\<rparr>]\<rparr> \<and>
   first_present_absolute raw_x [(Absolute, Some 10, Some 20, Some 5), (Relative, Some 3, Some (- 2), Some 0)] \<and>
   first_present_absolute raw_y [(Absolute, Some 10, Some 20, Some 5), (Relative, Some 3, Some (- 2), Some 0)] \<and>
   first_present_absolute raw_p [(Absolute, Some 10, Some 20, Some 5), (Relative, Some 3, Some (- 2), Some 0)]"
  using decoder_precondition [of "''pad''"
    "\<lparr>wd_timestamp = 0,
       wd_strokes = [[(Absolute, Some 10, Some 20, Some 5), (Relative, Some 3, Some (- 2), Some 0)]]\<rparr>"
    "\<lparr>dr_name = ''pad'', dr_dimensions = (0, 0), dr_timestamp = 0,
          dr_strokes = [\<lparr>st_points =
            [\<lparr>pt_toffset = None, pt_position = Some (Some 10, Some 20), pt_pressure = Some 5\<rparr>,
             \<lparr>pt_toffset = None, pt_position = Some (Some 13, Some 18), pt_pressure = Some 5\<rparr>]\<rparr>]\<rparr>"
    "[(Absolute, Some 10, Some 20, Some 5), (Relative, Some 3, Some (- 2), Some 0)]"]
  by (simp add: on_drawing_received_def decode_stroke_def channel_block_def)

text \<open>
  C9 (unknown UUID). Asking for value changes of a UUID that is not a key of the
  device's characteristic map returns without an error, without a call to any
  characteristic, and with the device unchanged.
\<close>

theorem connect_gatt_value_unknown_uuid:
  "uuid \<notin> set (keys (bz_characteristics d)) \<Longrightarrow> connect_gatt_value d uuid cb = Inr (d, [])"
proof -
  assume "uuid \<notin> set (keys (bz_characteristics d))"
  then have "map_of (bz_characteristics d) uuid = None"
    by (simp add: keys_def map_of_eq_None_iff)
  then show ?thesis by (simp add: connect_gatt_value_def dict_get_def)
qed

theorem connect_gatt_value_unknown_uuid_witness:
  "''u2'' \<notin> set (keys (bz_characteristics pad_resolved)) \<and>
   connect_gatt_value pad_resolved ''u2'' ''on_value'' = Inr (pad_resolved, [])"
proof -
  have h: "''u2'' \<notin> set (keys (bz_characteristics pad_resolved))"
    by (simp add: keys_def dev_defs)
  from h connect_gatt_value_unknown_uuid [OF h, of "''on_value''"] show ?thesis by simp
qed

text \<open>For comparison, a known UUID: the handler is registered and notification started.\<close>

lemma connect_gatt_value_known:
  "connect_gatt_value pad_resolved ''u1'' ''on_value'' =
     Inr (pad_resolved\<lparr>bz_characteristics :=
            [(''u1'', pad_chrc\<lparr>property_callbacks := [(''Value'', ''on_value'')]\<rparr>)]\<rparr>,
          [StartNotify ''/d/s/c''])"
  by (simp add: connect_gatt_value_def dict_get_def connect_property_def dev_defs)

text \<open>
  C10 (vendor filtering). A device constructed from an object without manufacturer
  data has vendor identifier 0 and is ignored by the update handler; the handler
  ignores every device whose vendor identifier is not the Wacom company id: it returns
  with the orchestrator unchanged (no session created) and without any call.
\<close>

theorem vendor_filtering:
  "(BlueZDevice_init om obj = Inr d \<and> if_device1 obj = Some i \<and> dev_ManufacturerData i = None
      \<longrightarrow> bz_vendor_id d = 0 \<and> on_bluez_device_updated t d working = Inr (t, [])) \<and>
   (bz_vendor_id d' \<noteq> WACOM_COMPANY_ID \<longrightarrow> on_bluez_device_updated t' d' working' = Inr (t', []))"
proof (intro conjI impI)
  assume a: "BlueZDevice_init om obj = Inr d \<and> if_device1 obj = Some i \<and> dev_ManufacturerData i = None"
  then show v: "bz_vendor_id d = 0"
    by (auto simp: BlueZDevice_init_def resolve_def resolve_gatt_services_def
        split: option.splits sum.splits prod.splits)
  then show "on_bluez_device_updated t d working = Inr (t, [])"
    by (simp add: on_bluez_device_updated_def WACOM_COMPANY_ID_def)
next
  assume "bz_vendor_id d' \<noteq> WACOM_COMPANY_ID"
  then show "on_bluez_device_updated t' d' working' = Inr (t', [])"
    by (simp add: on_bluez_device_updated_def)
qed

theorem vendor_filtering_witness:
  "BlueZDevice_init [] plain_object = Inr plain_device \<and>
   if_device1 plain_object = Some plain_interface \<and>
   dev_ManufacturerData plain_interface = None \<and>
   bz_vendor_id plain_device = 0 \<and>
   on_bluez_device_updated empty_tuhi plain_device False = Inr (empty_tuhi, []) \<and>
   bz_vendor_id plain_device \<noteq> WACOM_COMPANY_ID"
  using vendor_filtering [of "[]" plain_object plain_device plain_interface empty_tuhi False
      plain_device empty_tuhi False]
  by (simp add: ble_defs obj_defs dev_defs WACOM_COMPANY_ID_def)

end
